theory Spec2Isabelle
  imports Main "HOL-Library.Sublist"
begin

section \<open>JavaScript values used by the search module\<close>

text \<open>
  The module under study is the second part of \<^verbatim>\<open>src/DWA_6/src/main.js\<close>
  (the search module: \<^verbatim>\<open>handleSearchFormSubmit\<close> and \<^verbatim>\<open>updateBookList\<close>).
  A JavaScript string is modelled as a \<^typ>\<open>string\<close> whose characters are the UTF-16
  code units below 256 (ASCII and Latin-1); text outside that range is not covered.
  An uncaught exception is a value: a handler ends with a completion, \<open>Normal\<close> or
  \<open>Throw\<close>, together with the state it leaves behind.
\<close>

datatype error = TypeError

datatype completion = Normal | Throw error

text \<open>
  The values a form field can have once \<^verbatim>\<open>Object.fromEntries(new FormData(form))\<close> is read:
  a string, a \<^verbatim>\<open>File\<close> object (a file input), or \<^verbatim>\<open>undefined\<close> when the form has no
  field of that name.
\<close>

datatype val = Undefined | Str string | FileObj

subsection \<open>String.prototype.trim, toLowerCase, includes\<close>

text \<open>White space and line terminators of ECMAScript among the code units below 256:
  TAB, LF, VT, FF, CR, SPACE and NBSP.\<close>

definition isWhiteSpace :: "char \<Rightarrow> bool" where
  "isWhiteSpace c =
     (let n = (of_char c :: nat)
      in n = 9 \<or> n = 10 \<or> n = 11 \<or> n = 12 \<or> n = 13 \<or> n = 32 \<or> n = 160)"

definition trim :: "string \<Rightarrow> string" where
  "trim s = rev (dropWhile isWhiteSpace (rev (dropWhile isWhiteSpace s)))"

text \<open>Lower-casing of one code unit: A..Z, and the Latin-1 capitals U+00C0..U+00DE
  except the multiplication sign U+00D7, move up by 32.\<close>

definition lowerChar :: "char \<Rightarrow> char" where
  "lowerChar c =
     (let n = (of_char c :: nat)
      in if (65 \<le> n \<and> n \<le> 90) \<or> (192 \<le> n \<and> n \<le> 222 \<and> n \<noteq> 215)
         then char_of (n + 32) else c)"

definition toLowerCase :: "string \<Rightarrow> string" where
  "toLowerCase s = map lowerChar s"

text \<open>\<^verbatim>\<open>s.includes(t)\<close>: \<open>t\<close> occurs in \<open>s\<close> as a contiguous run.\<close>

fun String_includes :: "string \<Rightarrow> string \<Rightarrow> bool" where
  "String_includes [] t = (t = [])"
| "String_includes (c # s) t = (prefix t (c # s) \<or> String_includes s t)"

text \<open>\<^verbatim>\<open>array.includes(v)\<close> on an array of strings: only a string can be found in it.\<close>

fun Array_includes :: "string list \<Rightarrow> val \<Rightarrow> bool" where
  "Array_includes xs (Str s) = List.member xs s"
| "Array_includes xs Undefined = False"
| "Array_includes xs FileObj = False"

text \<open>Decimal rendering of an integer, as a template literal interpolates a number.\<close>

fun digitsOf :: "nat \<Rightarrow> string" where
  "digitsOf n =
     (if n < 10 then [char_of (48 + n)]
      else digitsOf (n div 10) @ [char_of (48 + n mod 10)])"

declare digitsOf.simps [simp del]

definition Number_toString :: "int \<Rightarrow> string" where
  "Number_toString i =
     (if i < 0 then CHR ''-'' # digitsOf (nat (- i)) else digitsOf (nat i))"

subsection \<open>Form data\<close>

text \<open>
  \<^verbatim>\<open>const filters = Object.fromEntries(formData)\<close>: the entries are written in order, so
  a later entry of the same name wins; reading a name that no entry has gives
  \<^verbatim>\<open>undefined\<close>.
\<close>

definition fromEntries :: "(string \<times> val) list \<Rightarrow> string \<Rightarrow> val" where
  "fromEntries formData k =
     (case map_of (rev formData) k of None \<Rightarrow> Undefined | Some v \<Rightarrow> v)"

section \<open>The catalog\<close>

text \<open>
  \<^verbatim>\<open>books\<close>, \<^verbatim>\<open>authors\<close> and \<^verbatim>\<open>BOOKS_PER_PAGE\<close> come from \<^verbatim>\<open>data.js\<close> and \<^verbatim>\<open>page\<close> from
  \<^verbatim>\<open>bookList.js\<close>; neither file is part of the sources, so all four are components of
  the state the handlers run in. A book is an object: the array \<^verbatim>\<open>books\<close> holds references
  (\<open>ref\<close>) and \<open>heap\<close> gives the object behind each reference, so that pushing a book to
  \<^verbatim>\<open>results\<close> pushes the reference, not a copy.
\<close>

type_synonym ref = nat

record book =
  book_id :: string
  title :: string
  author :: string
  genres :: "string list"
  image :: string

section \<open>The document\<close>

text \<open>
  One record for every element the module touches, with the properties it reads or
  writes: \<open>innerHTML\<close> is the markup last assigned, \<open>display\<close> is \<^verbatim>\<open>style.display\<close>,
  \<open>isOpen\<close> is the \<^verbatim>\<open>open\<close> property of the dialog. The list container
  \<^verbatim>\<open>[data-list-items]\<close> is known by its children. Each \<^verbatim>\<open>querySelector\<close> result is an
  option: \<open>None\<close> is \<^verbatim>\<open>null\<close>. The selectors are taken to name distinct elements.
\<close>

record element =
  tagName :: string
  classList :: "string list"
  attributes :: "(string \<times> string) list"
  innerHTML :: string
  disabled :: bool
  display :: string
  isOpen :: bool

record parent =
  children :: "element list"

record world =
  books :: "ref list"
  heap :: "ref \<Rightarrow> book"
  authors :: "string \<rightharpoonup> string"
  inheritedText :: "string \<Rightarrow> string"
  BOOKS_PER_PAGE :: int
  page :: int
  dataListItems :: "parent option"
  dataListButton :: "element option"
  dataSearchOverlay :: "element option"
  dataListMessage :: "element option"
  searchCancelButton :: "element option"
  searchButton :: "element option"
  scrollTop :: int
  defaultPrevented :: bool
  console :: "string list"

text \<open>
  \<open>scrollTop\<close> is the vertical scroll target of the window, \<open>defaultPrevented\<close> the flag
  of the event being dispatched, and \<open>console\<close> the messages written to the console (the
  module has no call that writes one). \<open>authors\<close> holds the own properties of the author
  table, a plain object; \<open>inheritedText\<close> gives, for the name of a property that a plain
  object inherits from \<^verbatim>\<open>Object.prototype\<close>, the text a template literal makes of the
  inherited value (for a built-in function the engine chooses that text). The event
  carries the entries of its target form.
\<close>

record event =
  target :: "(string \<times> val) list"

definition createElement :: "string \<Rightarrow> element" where
  "createElement t =
     \<lparr>tagName = t, classList = [], attributes = [], innerHTML = [],
      disabled = False, display = [], isOpen = False\<rparr>"

definition classList_add :: "string \<Rightarrow> element \<Rightarrow> element" where
  "classList_add c e =
     e\<lparr>classList := (if List.member (classList e) c then classList e else classList e @ [c])\<rparr>"

fun setAttr :: "string \<Rightarrow> string \<Rightarrow> (string \<times> string) list \<Rightarrow> (string \<times> string) list" where
  "setAttr k v [] = [(k, v)]"
| "setAttr k v ((k', v') # as) = (if k' = k then (k, v) # as else (k', v') # setAttr k v as)"

definition setAttribute :: "string \<Rightarrow> string \<Rightarrow> element \<Rightarrow> element" where
  "setAttribute k v e = e\<lparr>attributes := setAttr k v (attributes e)\<rparr>"

section \<open>handleSearchFormSubmit: the filter\<close>

text \<open>
  \<^verbatim>\<open>filters.title.trim() === '' || book.title.toLowerCase().includes(filters.title.toLowerCase())\<close>.
  Calling \<^verbatim>\<open>trim\<close> on \<^verbatim>\<open>undefined\<close> or on a \<^verbatim>\<open>File\<close> throws a TypeError. The emptiness
  test reads the trimmed query, the substring test the query as submitted.
\<close>

fun titleMatch :: "(string \<Rightarrow> val) \<Rightarrow> book \<Rightarrow> error + bool" where
  "titleMatch filters b =
     (case filters ''title'' of
        Str q \<Rightarrow> Inr (trim q = [] \<or> String_includes (toLowerCase (title b)) (toLowerCase q))
      | Undefined \<Rightarrow> Inl TypeError
      | FileObj \<Rightarrow> Inl TypeError)"

text \<open>\<^verbatim>\<open>authorId === 'any' || book.author === authorId\<close>\<close>

definition authorMatch :: "(string \<Rightarrow> val) \<Rightarrow> book \<Rightarrow> bool" where
  "authorMatch filters b =
     (let authorId = filters ''author''
      in authorId = Str ''any'' \<or> Str (author b) = authorId)"

text \<open>\<^verbatim>\<open>genre === 'any' || book.genres.includes(genre)\<close>\<close>

definition genreMatch :: "(string \<Rightarrow> val) \<Rightarrow> book \<Rightarrow> bool" where
  "genreMatch filters b =
     (let genre = filters ''genre''
      in genre = Str ''any'' \<or> Array_includes (genres b) genre)"

text \<open>
  The loop \<^verbatim>\<open>for (const book of books) { ... results.push(book) }\<close>, with \<open>results\<close> the
  array built so far. An exception in the body ends the loop.
\<close>

fun searchLoop ::
  "(string \<Rightarrow> val) \<Rightarrow> (ref \<Rightarrow> book) \<Rightarrow> ref list \<Rightarrow> ref list \<Rightarrow> error + ref list" where
  "searchLoop filters h [] results = Inr results"
| "searchLoop filters h (r # rs) results =
     (case titleMatch filters (h r) of
        Inl e \<Rightarrow> Inl e
      | Inr tm \<Rightarrow>
          if tm \<and> authorMatch filters (h r) \<and> genreMatch filters (h r)
          then searchLoop filters h rs (results @ [r])
          else searchLoop filters h rs results)"

section \<open>updateBookList\<close>

text \<open>The three constants computed first: \<^verbatim>\<open>remainingBooks\<close>, \<^verbatim>\<open>hasRemaining\<close>,
  \<^verbatim>\<open>remaining\<close>.\<close>

definition remainingBooks :: "nat \<Rightarrow> int \<Rightarrow> int \<Rightarrow> int" where
  "remainingBooks results_length pg per_page = int results_length - pg * per_page"

definition hasRemaining :: "int \<Rightarrow> bool" where
  "hasRemaining rb = (rb > 0)"

definition remaining :: "int \<Rightarrow> int" where
  "remaining rb = (if hasRemaining rb then rb else 0)"

definition nl :: string where
  "nl = [CHR 0x0A]"

text \<open>The markup assigned to the button: the template literal of lines 195 to 198.\<close>

definition buttonHTML :: "int \<Rightarrow> string" where
  "buttonHTML rem =
     nl @ ''            <span>Show more</span>'' @
     nl @ ''            <span class=\"list__remaining\">('' @ Number_toString rem @ '')</span>'' @
     nl @ ''        ''"

text \<open>The names of the properties a plain object inherits from \<^verbatim>\<open>Object.prototype\<close>.\<close>

definition objectPrototypeNames :: "string list" where
  "objectPrototypeNames =
     [''constructor'', ''hasOwnProperty'', ''isPrototypeOf'', ''propertyIsEnumerable'',
      ''toLocaleString'', ''toString'', ''valueOf'', ''__proto__'',
      ''__defineGetter__'', ''__defineSetter__'', ''__lookupGetter__'', ''__lookupSetter__'']"

text \<open>\<^verbatim>\<open>${authors[authorId]}\<close>: the lookup finds an own property of the table first, then a
  property inherited from \<^verbatim>\<open>Object.prototype\<close>; an id that is neither reads as
  \<^verbatim>\<open>undefined\<close>, which the template literal writes as the text "undefined".\<close>

definition authorText ::
  "(string \<rightharpoonup> string) \<Rightarrow> (string \<Rightarrow> string) \<Rightarrow> string \<Rightarrow> string" where
  "authorText as inherited authorId =
     (case as authorId of
        Some name \<Rightarrow> name
      | None \<Rightarrow>
          if List.member objectPrototypeNames authorId then inherited authorId
          else ''undefined'')"

text \<open>The markup of one preview: the template literal of lines 211 to 217.\<close>

definition previewHTML :: "string \<Rightarrow> string \<Rightarrow> string \<Rightarrow> string" where
  "previewHTML img ttl auth =
     nl @ ''            <img class=\"preview__image\" src=\"'' @ img @ ''\" />'' @
     nl @ ''            <div class=\"preview__info\">'' @
     nl @ ''                <h3 class=\"preview__title\">'' @ ttl @ ''</h3>'' @
     nl @ ''                <div class=\"preview__author\">'' @ auth @ ''</div>'' @
     nl @ ''            </div>'' @
     nl @ ''        ''"

text \<open>The body of the loop over \<^verbatim>\<open>results\<close>: one \<^verbatim>\<open>button\<close> element per book.\<close>

definition createPreview ::
  "(string \<rightharpoonup> string) \<Rightarrow> (string \<Rightarrow> string) \<Rightarrow> book \<Rightarrow> element" where
  "createPreview as inherited b =
     (let element = createElement ''button'';
          element = classList_add ''preview'' element;
          element = setAttribute ''data-preview'' (book_id b) element
      in element\<lparr>innerHTML := previewHTML (image b) (title b) (authorText as inherited (author b))\<rparr>)"

text \<open>\<^verbatim>\<open>for (const book of results) { ... fragment.appendChild(element) }\<close>\<close>

fun fillFragment ::
  "(string \<rightharpoonup> string) \<Rightarrow> (string \<Rightarrow> string) \<Rightarrow> (ref \<Rightarrow> book) \<Rightarrow> ref list
     \<Rightarrow> element list \<Rightarrow> element list" where
  "fillFragment as inherited h [] fragment = fragment"
| "fillFragment as inherited h (r # rs) fragment =
     fillFragment as inherited h rs (fragment @ [createPreview as inherited (h r)])"

text \<open>
  The function itself. The button and the message element are guarded by \<^verbatim>\<open>if\<close>; the
  list container is not: \<^verbatim>\<open>dataListItems.innerHTML = ''\<close> on \<^verbatim>\<open>null\<close> throws a TypeError,
  after the button has been updated and before anything else is.
\<close>

definition updateBookList :: "ref list \<Rightarrow> world \<Rightarrow> completion \<times> world" where
  "updateBookList results w =
     (let rb = remainingBooks (length results) (page w) (BOOKS_PER_PAGE w);
          w = w\<lparr>dataListButton :=
                  map_option (\<lambda>b. b\<lparr>disabled := \<not> hasRemaining rb\<rparr>) (dataListButton w)\<rparr>;
          w = w\<lparr>dataListButton :=
                  map_option (\<lambda>b. b\<lparr>innerHTML := buttonHTML (remaining rb)\<rparr>) (dataListButton w)\<rparr>;
          fragment = fillFragment (authors w) (inheritedText w) (heap w) results []
      in case dataListItems w of
           None \<Rightarrow> (Throw TypeError, w)
         | Some items \<Rightarrow>
            (let items = items\<lparr>children := []\<rparr>;
                 items = items\<lparr>children := children items @ fragment\<rparr>;
                 w = w\<lparr>dataListItems := Some items\<rparr>;
                 w = w\<lparr>dataListMessage :=
                        map_option (\<lambda>m. m\<lparr>display := (if length results = 0 then ''block'' else ''none'')\<rparr>)
                          (dataListMessage w)\<rparr>;
                 w = (case (dataListButton w, dataListMessage w) of
                        (Some b, Some m) \<Rightarrow>
                          w\<lparr>dataListButton :=
                               Some (b\<lparr>display := (if length results > 0 then ''block'' else ''none'')\<rparr>),
                            dataListMessage :=
                               Some (m\<lparr>display := (if length results = 0 then ''block'' else ''none'')\<rparr>)\<rparr>
                      | _ \<Rightarrow> w);
                 w = w\<lparr>scrollTop := 0\<rparr>;
                 w = w\<lparr>dataSearchOverlay :=
                        map_option (\<lambda>d. d\<lparr>isOpen := False\<rparr>) (dataSearchOverlay w)\<rparr>
             in (Normal, w)))"

section \<open>handleSearchFormSubmit: the handler\<close>

definition handleSearchFormSubmit :: "event \<Rightarrow> world \<Rightarrow> completion \<times> world" where
  "handleSearchFormSubmit ev w =
     (let w = w\<lparr>defaultPrevented := True\<rparr>;
          filters = fromEntries (target ev)
      in case searchLoop filters (heap w) (books w) [] of
           Inl e \<Rightarrow> (Throw e, w)
         | Inr results \<Rightarrow>
            (case updateBookList results w of
               (Throw e, w) \<Rightarrow> (Throw e, w)
             | (Normal, w) \<Rightarrow>
                 (case (searchCancelButton w, searchButton w) of
                    (Some c, Some s) \<Rightarrow>
                      (Normal, w\<lparr>searchCancelButton := Some (c\<lparr>disabled := False\<rparr>),
                                 searchButton := Some (s\<lparr>disabled := False\<rparr>)\<rparr>)
                  | _ \<Rightarrow> (Normal, w))))"

section \<open>The specification's filter, for comparison\<close>

text \<open>
  The criteria of a search as the specification has them: three text fields. The form
  delivers them under the names \<^verbatim>\<open>title\<close>, \<^verbatim>\<open>author\<close> and \<^verbatim>\<open>genre\<close>.
\<close>

record criteria =
  titleQuery :: string
  authorId :: string
  genreId :: string

definition formOf :: "criteria \<Rightarrow> (string \<times> val) list" where
  "formOf c =
     [(''title'', Str (titleQuery c)), (''author'', Str (authorId c)), (''genre'', Str (genreId c))]"

text \<open>
  The author and genre predicates in the words of the claim about the result set.
\<close>

definition claimed_authorMatch :: "string \<Rightarrow> book \<Rightarrow> bool" where
  "claimed_authorMatch a b = (a = ''any'' \<or> a = author b)"

definition claimed_genreMatch :: "string \<Rightarrow> book \<Rightarrow> bool" where
  "claimed_genreMatch g b = (g = ''any'' \<or> List.member (genres b) g)"

text \<open>
  The title predicate of the specification's section 4.1, which the claim about the result
  set abbreviates: the query is trimmed first; the empty string matches all, anything else
  is a case-insensitive substring test. The result set of the specification is the filter
  of the catalog by the conjunction of the three predicates.
\<close>

definition trimmed_titleMatch :: "string \<Rightarrow> book \<Rightarrow> bool" where
  "trimmed_titleMatch q b =
     (let t = trim q in t = [] \<or> String_includes (toLowerCase (title b)) (toLowerCase t))"

definition trimmed_filterCatalog :: "criteria \<Rightarrow> (ref \<Rightarrow> book) \<Rightarrow> ref list \<Rightarrow> ref list" where
  "trimmed_filterCatalog c h catalog =
     filter (\<lambda>r. trimmed_titleMatch (titleQuery c) (h r)
                \<and> claimed_authorMatch (authorId c) (h r)
                \<and> claimed_genreMatch (genreId c) (h r)) catalog"

text \<open>A title query with nothing to trim, or nothing but white space.\<close>

definition plainQuery :: "string \<Rightarrow> bool" where
  "plainQuery q = (trim q = q \<or> trim q = [])"

text \<open>The slice \<open>resultSet[0 .. pageIndex * pageSize)\<close> of the specification's REPLACE mode.\<close>

definition pageSlice :: "int \<Rightarrow> int \<Rightarrow> 'a list \<Rightarrow> 'a list" where
  "pageSlice pg per_page rs = take (nat (pg * per_page)) rs"

section \<open>A small catalog and page to run the handlers on\<close>

definition mobyDick :: book where
  "mobyDick =
     \<lparr>book_id = ''b1'', title = ''Moby Dick'', author = ''a1'', genres = [''g1''],
      image = ''b1.jpg''\<rparr>"

definition warAndPeace :: book where
  "warAndPeace =
     \<lparr>book_id = ''b2'', title = ''War and Peace'', author = ''a2'', genres = [''g2''],
      image = ''b2.jpg''\<rparr>"

text \<open>A record whose author id is not in the author table.\<close>

definition walden :: book where
  "walden =
     \<lparr>book_id = ''b3'', title = ''Walden'', author = ''a9999'', genres = [''g1'', ''g2''],
      image = ''b3.jpg''\<rparr>"

text \<open>A record whose author id is the name of an inherited property.\<close>

definition anonymous :: book where
  "anonymous =
     \<lparr>book_id = ''b4'', title = ''Beowulf'', author = ''constructor'', genres = [''g1''],
      image = ''b4.jpg''\<rparr>"

definition demoHeap :: "ref \<Rightarrow> book" where
  "demoHeap r =
     (if r = 0 then mobyDick else if r = 1 then warAndPeace else if r = 2 then walden
      else anonymous)"

definition demoAuthors :: "string \<rightharpoonup> string" where
  "demoAuthors = [''a1'' \<mapsto> ''Herman Melville'', ''a2'' \<mapsto> ''Leo Tolstoy'']"

text \<open>The texts of the inherited values as one engine (V8) prints them.\<close>

definition demoInherited :: "string \<Rightarrow> string" where
  "demoInherited name =
     (if name = ''__proto__'' then ''[object Object]''
      else ''function '' @ (if name = ''constructor'' then ''Object'' else name)
             @ ''() { [native code] }'')"


text \<open>A complete page: every element the module looks for is there; one page of two
  books is shown, the button is visible and the search dialog is open.\<close>

definition demoWorld :: world where
  "demoWorld =
     \<lparr>books = [0, 1, 2], heap = demoHeap, authors = demoAuthors,
      inheritedText = demoInherited, BOOKS_PER_PAGE = 2, page = 1,
      dataListItems = Some \<lparr>children = [createElement ''p'']\<rparr>,
      dataListButton = Some ((createElement ''button'')\<lparr>display := ''block''\<rparr>),
      dataSearchOverlay = Some ((createElement ''dialog'')\<lparr>isOpen := True\<rparr>),
      dataListMessage = Some (createElement ''div''),
      searchCancelButton = Some ((createElement ''button'')\<lparr>disabled := True\<rparr>),
      searchButton = Some (createElement ''button''),
      scrollTop = 480, defaultPrevented = False, console = []\<rparr>"

section \<open>Facts about the filter loop\<close>

lemma String_includes_sublist: "String_includes s t = sublist t s"
  by (induction s) (auto simp: sublist_Cons_right)

lemma fromEntries_formOf:
  "fromEntries (formOf c) ''title'' = Str (titleQuery c)"
  "fromEntries (formOf c) ''author'' = Str (authorId c)"
  "fromEntries (formOf c) ''genre'' = Str (genreId c)"
  by (simp_all add: fromEntries_def formOf_def)

text \<open>With a text in the title field the loop never throws, and it is a filter: it
  appends to \<open>results\<close> the books that pass the three tests, in the order of the catalog.\<close>

lemma searchLoop_text_title:
  assumes "filters ''title'' = Str q"
  shows "searchLoop filters h bs acc =
           Inr (acc @ filter (\<lambda>r. (trim q = []
                                    \<or> String_includes (toLowerCase (title (h r))) (toLowerCase q))
                                  \<and> authorMatch filters (h r) \<and> genreMatch filters (h r)) bs)"
  using assms by (induction bs arbitrary: acc) simp_all

text \<open>A query that is empty after trimming matches every title.\<close>

lemma blank_query_matches_every_title:
  assumes "filters ''title'' = Str q" and "trim q = []"
  shows "titleMatch filters b = Inr True"
  using assms by simp

text \<open>Without one, the first book already throws.\<close>

lemma searchLoop_no_text_title:
  assumes "filters ''title'' = Undefined \<or> filters ''title'' = FileObj" and "bs \<noteq> []"
  shows "searchLoop filters h bs acc = Inl TypeError"
  using assms by (cases bs) auto

lemma authorMatch_formOf:
  "authorMatch (fromEntries (formOf c)) b = claimed_authorMatch (authorId c) b"
  by (auto simp: authorMatch_def claimed_authorMatch_def fromEntries_formOf)

lemma genreMatch_formOf:
  "genreMatch (fromEntries (formOf c)) b = claimed_genreMatch (genreId c) b"
  by (simp add: genreMatch_def claimed_genreMatch_def fromEntries_formOf)

lemma no_author_no_match:
  assumes "filters ''author'' = Undefined \<or> filters ''author'' = FileObj"
  shows "\<not> authorMatch filters b"
  using assms by (auto simp: authorMatch_def)

lemma no_genre_no_match:
  assumes "filters ''genre'' = Undefined \<or> filters ''genre'' = FileObj"
  shows "\<not> genreMatch filters b"
  using assms by (auto simp: genreMatch_def)

lemma plain_title:
  assumes "plainQuery q"
  shows "(trim q = [] \<or> String_includes (toLowerCase (title b)) (toLowerCase q))
           = trimmed_titleMatch q b"
  using assms by (auto simp: plainQuery_def trimmed_titleMatch_def Let_def)

lemma searchLoop_formOf:
  "searchLoop (fromEntries (formOf c)) h bs [] =
     Inr (filter (\<lambda>r. (trim (titleQuery c) = []
                          \<or> String_includes (toLowerCase (title (h r))) (toLowerCase (titleQuery c)))
                       \<and> claimed_authorMatch (authorId c) (h r)
                       \<and> claimed_genreMatch (genreId c) (h r)) bs)"
  using searchLoop_text_title [where filters = "fromEntries (formOf c)" and q = "titleQuery c"
      and h = h and bs = bs and acc = "[]"]
  by (simp add: fromEntries_formOf authorMatch_formOf genreMatch_formOf)

text \<open>Whatever the filters are, what the loop returns is what it was given followed by a
  subsequence of the catalog.\<close>

lemma searchLoop_subseq:
  assumes "searchLoop filters h bs acc = Inr rs"
  shows "\<exists>kept. rs = acc @ kept \<and> subseq kept bs"
  using assms
proof (induction bs arbitrary: acc)
  case Nil
  then show ?case by simp
next
  case (Cons b bs)
  from Cons.prems obtain tm where tm: "titleMatch filters (h b) = Inr tm"
    by (cases "titleMatch filters (h b)") simp_all
  show ?case
  proof (cases "tm \<and> authorMatch filters (h b) \<and> genreMatch filters (h b)")
    case True
    with Cons.prems tm have "searchLoop filters h bs (acc @ [b]) = Inr rs" by simp
    from Cons.IH [OF this] obtain kept where "rs = (acc @ [b]) @ kept" "subseq kept bs" by blast
    then have "rs = acc @ (b # kept) \<and> subseq (b # kept) (b # bs)" by simp
    then show ?thesis by blast
  next
    case False
    with Cons.prems tm have "searchLoop filters h bs acc = Inr rs" by auto
    from Cons.IH [OF this] obtain kept where "rs = acc @ kept" "subseq kept bs" by blast
    then have "rs = acc @ kept \<and> subseq kept (b # bs)" by (simp add: list_emb_Cons)
    then show ?thesis by blast
  qed
qed

text \<open>Rules that run the string functions and the small catalog.\<close>

lemmas run_simps =
  toLowerCase_def lowerChar_def char_of_def bit_Suc_0_iff trim_def isWhiteSpace_def
  demoHeap_def mobyDick_def warAndPeace_def walden_def
  claimed_authorMatch_def claimed_genreMatch_def

section \<open>Facts about updateBookList\<close>

lemma fillFragment_map:
  "fillFragment as inherited h rs fragment
     = fragment @ map (\<lambda>r. createPreview as inherited (h r)) rs"
  by (induction rs arbitrary: fragment) simp_all

text \<open>The function throws exactly when the list container is missing.\<close>

lemma updateBookList_completion:
  "fst (updateBookList rs w) = (if dataListItems w = None then Throw TypeError else Normal)"
  by (simp add: updateBookList_def Let_def split: option.splits)

lemma updateBookList_frame:
  "books (snd (updateBookList rs w)) = books w"
  "heap (snd (updateBookList rs w)) = heap w"
  "authors (snd (updateBookList rs w)) = authors w"
  "page (snd (updateBookList rs w)) = page w"
  "BOOKS_PER_PAGE (snd (updateBookList rs w)) = BOOKS_PER_PAGE w"
  "console (snd (updateBookList rs w)) = console w"
  "defaultPrevented (snd (updateBookList rs w)) = defaultPrevented w"
  "searchCancelButton (snd (updateBookList rs w)) = searchCancelButton w"
  "searchButton (snd (updateBookList rs w)) = searchButton w"
  by (simp_all add: updateBookList_def Let_def split: option.splits)

lemma updateBookList_frame_pair:
  assumes "updateBookList rs w = (c, w')"
  shows "books w' = books w \<and> heap w' = heap w \<and> authors w' = authors w \<and> page w' = page w
         \<and> console w' = console w"
proof -
  have "w' = snd (updateBookList rs w)" using assms by simp
  then show ?thesis by (simp add: updateBookList_frame)
qed

text \<open>The container ends up with one preview per entry of \<open>results\<close>, all of them, and
  nothing of what it held before.\<close>

lemma updateBookList_children:
  assumes "dataListItems w = Some items"
  shows "map_option children (dataListItems (snd (updateBookList rs w)))
           = Some (map (\<lambda>r. createPreview (authors w) (inheritedText w) (heap w r)) rs)"
  using assms by (simp add: updateBookList_def Let_def fillFragment_map split: option.splits)

lemma updateBookList_button_early:
  "map_option disabled (dataListButton (snd (updateBookList rs w)))
     = map_option (\<lambda>b. \<not> hasRemaining (remainingBooks (length rs) (page w) (BOOKS_PER_PAGE w)))
         (dataListButton w)"
  "map_option innerHTML (dataListButton (snd (updateBookList rs w)))
     = map_option
         (\<lambda>b. buttonHTML (remaining (remainingBooks (length rs) (page w) (BOOKS_PER_PAGE w))))
         (dataListButton w)"
  by (simp_all add: updateBookList_def Let_def option.map_comp comp_def split: option.splits)


lemma updateBookList_message:
  assumes "dataListItems w = Some items"
  shows "map_option display (dataListMessage (snd (updateBookList rs w)))
     = map_option (\<lambda>m. if rs = [] then ''block'' else ''none'') (dataListMessage w)"
  using assms
  by (simp add: updateBookList_def Let_def option.map_comp comp_def split: option.splits)

lemma updateBookList_overlay:
  assumes "dataListItems w = Some items"
  shows "map_option isOpen (dataSearchOverlay (snd (updateBookList rs w)))
     = map_option (\<lambda>d. False) (dataSearchOverlay w)"
    and "scrollTop (snd (updateBookList rs w)) = 0"
  using assms
  by (simp_all add: updateBookList_def Let_def option.map_comp comp_def split: option.splits)

lemma disabled_iff_none_remaining: "(\<not> hasRemaining rb) = (remaining rb = 0)"
  by (simp add: remaining_def hasRemaining_def)

section \<open>Facts about the handler\<close>

lemma handler_frame:
  "books (snd (handleSearchFormSubmit ev w)) = books w"
  "heap (snd (handleSearchFormSubmit ev w)) = heap w"
  "authors (snd (handleSearchFormSubmit ev w)) = authors w"
  "page (snd (handleSearchFormSubmit ev w)) = page w"
  "console (snd (handleSearchFormSubmit ev w)) = console w"
  by (auto simp: handleSearchFormSubmit_def Let_def
      split: sum.splits prod.splits completion.splits option.splits
      dest!: updateBookList_frame_pair)

text \<open>The handler throws when the loop does or when \<open>updateBookList\<close> does.\<close>

lemma handler_completion:
  "fst (handleSearchFormSubmit ev w) =
     (case searchLoop (fromEntries (target ev)) (heap w) (books w) [] of
        Inl e \<Rightarrow> Throw e
      | Inr rs \<Rightarrow> if dataListItems w = None then Throw TypeError else Normal)"
proof (cases "searchLoop (fromEntries (target ev)) (heap w) (books w) []")
  case (Inl e)
  then show ?thesis by (simp add: handleSearchFormSubmit_def)
next
  case (Inr rs)
  let ?w = "w\<lparr>defaultPrevented := True\<rparr>"
  have "fst (updateBookList rs ?w) = (if dataListItems w = None then Throw TypeError else Normal)"
    by (simp add: updateBookList_completion)
  with Inr show ?thesis
    by (cases "updateBookList rs ?w")
       (auto simp: handleSearchFormSubmit_def split: completion.splits option.splits)
qed

section \<open>The computation of the remaining count\<close>

text \<open>
  C3. For every length of the result array, page index and page size, the remaining count
  that \<^verbatim>\<open>updateBookList\<close> computes is \<open>max 0 (length - page * pageSize)\<close>: a difference
  that is negative or zero is clamped to 0.
\<close>

theorem remaining_is_clamped_difference:
  "remaining (remainingBooks n pg per_page) = max 0 (int n - pg * per_page)"
  by (simp add: remaining_def remainingBooks_def hasRemaining_def max_def)

section \<open>The result set of a search\<close>

text \<open>
  Where the title query has nothing to trim, or is white space only, the loop of the
  handler returns the result set of the specification: the books for which the title,
  author and genre predicates all hold, in catalog order (\<open>filter\<close> keeps the order of
  the list it filters).
\<close>

lemma search_result_on_plain_query:
  assumes "plainQuery (titleQuery c)"
  shows "searchLoop (fromEntries (formOf c)) h catalog [] = Inr (trimmed_filterCatalog c h catalog)"
  by (simp add: searchLoop_formOf trimmed_filterCatalog_def plain_title [OF assms])

text \<open>
  C1, at the failing input. The result set is to hold exactly the books for which the
  title, author and genre predicates all hold. For the criteria with title query "peace "
  (a trailing space), author "a2" and genre "g2", on the catalog of "Moby Dick" and "War
  and Peace", all three predicates hold for "War and Peace": the trimmed query "peace" is a
  case-insensitive substring of its title, its author is "a2" and "g2" is among its
  genres. The loop of the handler returns no book, because its substring test reads the
  query as submitted.
\<close>

theorem untrimmed_query_empties_result_set:
  "trim ''peace '' = ''peace''
   \<and> trimmed_filterCatalog \<lparr>titleQuery = ''peace '', authorId = ''a2'', genreId = ''g2''\<rparr>
        demoHeap [0, 1] = [1]
   \<and> searchLoop (fromEntries (formOf \<lparr>titleQuery = ''peace '', authorId = ''a2'', genreId = ''g2''\<rparr>))
        demoHeap [0, 1] [] = Inr []"
  by (simp only: searchLoop_formOf)
     (simp add: run_simps trimmed_filterCatalog_def trimmed_titleMatch_def)

section \<open>The page counter\<close>

text \<open>Once the loop has returned \<open>results\<close>, the button the handler leaves is the button
  \<open>updateBookList\<close> leaves.\<close>

lemma handler_button:
  assumes "searchLoop (fromEntries (target ev)) (heap w) (books w) [] = Inr rs"
  shows "dataListButton (snd (handleSearchFormSubmit ev w))
           = dataListButton (snd (updateBookList rs (w\<lparr>defaultPrevented := True\<rparr>)))"
  using assms
  by (cases "updateBookList rs (w\<lparr>defaultPrevented := True\<rparr>)")
     (auto simp: handleSearchFormSubmit_def split: completion.splits option.splits)

text \<open>
  C2, as stated, at a concrete input. After one "load more" action the counter is 2; a
  search submitted then completes normally and the counter is still 2, not 1.
\<close>

theorem page_not_reset_counterexample:
  "fst (handleSearchFormSubmit
          \<lparr>target = formOf \<lparr>titleQuery = [], authorId = ''any'', genreId = ''any''\<rparr>\<rparr>
          (demoWorld\<lparr>page := 2\<rparr>)) = Normal
   \<and> page (snd (handleSearchFormSubmit
          \<lparr>target = formOf \<lparr>titleQuery = [], authorId = ''any'', genreId = ''any''\<rparr>\<rparr>
          (demoWorld\<lparr>page := 2\<rparr>))) = 2"
  by (simp add: handler_completion handler_frame searchLoop_formOf demoWorld_def
      del: searchLoop.simps)

text \<open>
  C2, amended. A search submission leaves the page counter as it found it: the handler
  neither resets it to 1 nor decrements it (\<^verbatim>\<open>page\<close> is an imported binding that this
  module only reads), whether the handler returns or throws; and the remaining count of
  the new result set, which decides whether the load-more button is disabled and which
  its label shows, is computed with that unchanged counter.
\<close>

theorem search_keeps_page:
  "page (snd (handleSearchFormSubmit ev w)) = page w
   \<and> (\<forall>results. searchLoop (fromEntries (target ev)) (heap w) (books w) [] = Inr results \<longrightarrow>
         map_option disabled (dataListButton (snd (handleSearchFormSubmit ev w)))
           = map_option
               (\<lambda>b. remaining (remainingBooks (length results) (page w) (BOOKS_PER_PAGE w)) = 0)
               (dataListButton w)
       \<and> map_option innerHTML (dataListButton (snd (handleSearchFormSubmit ev w)))
           = map_option
               (\<lambda>b. buttonHTML (remaining (remainingBooks (length results) (page w)
                                             (BOOKS_PER_PAGE w))))
               (dataListButton w))"
proof -
  have "map_option disabled (dataListButton (snd (handleSearchFormSubmit ev w)))
           = map_option
               (\<lambda>b. remaining (remainingBooks (length results) (page w) (BOOKS_PER_PAGE w)) = 0)
               (dataListButton w)
       \<and> map_option innerHTML (dataListButton (snd (handleSearchFormSubmit ev w)))
           = map_option
               (\<lambda>b. buttonHTML (remaining (remainingBooks (length results) (page w)
                                             (BOOKS_PER_PAGE w))))
               (dataListButton w)"
    if run: "searchLoop (fromEntries (target ev)) (heap w) (books w) [] = Inr results"
    for results
    by (simp add: handler_button [OF run] updateBookList_button_early
        disabled_iff_none_remaining)
  then show ?thesis by (simp add: handler_frame)
qed

text \<open>The amended C2 on the demo page with the counter at 2 and a page size of 2: the
  empty query finds the three books; the counter is still 2, so no book remains, and the
  button is disabled and labelled with 0. (With the counter back at 1, one book would
  remain and the button would be enabled.)\<close>

theorem search_keeps_page_witness:
  "searchLoop (fromEntries (formOf \<lparr>titleQuery = [], authorId = ''any'', genreId = ''any''\<rparr>))
       demoHeap [0, 1, 2] [] = Inr [0, 1, 2]
   \<and> page (snd (handleSearchFormSubmit
          \<lparr>target = formOf \<lparr>titleQuery = [], authorId = ''any'', genreId = ''any''\<rparr>\<rparr>
          (demoWorld\<lparr>page := 2\<rparr>))) = 2
   \<and> map_option disabled (dataListButton (snd (handleSearchFormSubmit
          \<lparr>target = formOf \<lparr>titleQuery = [], authorId = ''any'', genreId = ''any''\<rparr>\<rparr>
          (demoWorld\<lparr>page := 2\<rparr>)))) = Some True
   \<and> map_option innerHTML (dataListButton (snd (handleSearchFormSubmit
          \<lparr>target = formOf \<lparr>titleQuery = [], authorId = ''any'', genreId = ''any''\<rparr>\<rparr>
          (demoWorld\<lparr>page := 2\<rparr>)))) = Some (buttonHTML 0)
   \<and> remaining (remainingBooks 3 1 2) = 1"
proof -
  let ?ev = "\<lparr>target = formOf \<lparr>titleQuery = [], authorId = ''any'', genreId = ''any''\<rparr>\<rparr>"
  let ?w = "demoWorld\<lparr>page := 2\<rparr>"
  have loop: "searchLoop (fromEntries (formOf \<lparr>titleQuery = [], authorId = ''any'',
      genreId = ''any''\<rparr>)) demoHeap [0, 1, 2] [] = Inr [0, 1, 2]"
    by (simp only: searchLoop_formOf) (simp add: run_simps)
  have facts: "heap ?w = demoHeap" "books ?w = [0, 1, 2]" "page ?w = 2" "BOOKS_PER_PAGE ?w = 2"
    "dataListButton ?w = Some ((createElement ''button'')\<lparr>display := ''block''\<rparr>)"
    by (simp_all add: demoWorld_def)
  have run: "searchLoop (fromEntries (target ?ev)) (heap ?w) (books ?w) [] = Inr [0, 1, 2]"
    using loop by (simp add: facts del: searchLoop.simps)
  have counts: "remaining (remainingBooks (length [0, 1, 2 :: ref]) 2 2) = 0"
    "remaining (remainingBooks 3 1 2) = 1"
    by (simp_all add: remaining_def remainingBooks_def hasRemaining_def)
  from search_keeps_page [of ?ev ?w] run
  have "page (snd (handleSearchFormSubmit ?ev ?w)) = page ?w
      \<and> map_option disabled (dataListButton (snd (handleSearchFormSubmit ?ev ?w)))
           = map_option
               (\<lambda>b. remaining (remainingBooks (length [0, 1, 2 :: ref]) (page ?w)
                                  (BOOKS_PER_PAGE ?w)) = 0)
               (dataListButton ?w)
      \<and> map_option innerHTML (dataListButton (snd (handleSearchFormSubmit ?ev ?w)))
           = map_option
               (\<lambda>b. buttonHTML (remaining (remainingBooks (length [0, 1, 2 :: ref]) (page ?w)
                                             (BOOKS_PER_PAGE ?w))))
               (dataListButton ?w)"
    by blast
  with loop counts show ?thesis by (simp add: facts)
qed

section \<open>What is rendered\<close>

text \<open>
  C4, at the failing input. With a page size of 2 and one page shown, the slice
  \<open>resultSet[0 .. 2)\<close> of a result set of three books has two entries; \<^verbatim>\<open>updateBookList\<close>
  puts three previews in the list container, while it labels the button with one book
  remaining.
\<close>

theorem renders_beyond_page_bound:
  "length (pageSlice (page demoWorld) (BOOKS_PER_PAGE demoWorld) [0, 1, 2 :: ref]) = 2
   \<and> map_option (length \<circ> children) (dataListItems (snd (updateBookList [0, 1, 2] demoWorld)))
       = Some 3
   \<and> map_option innerHTML (dataListButton (snd (updateBookList [0, 1, 2] demoWorld)))
       = Some (buttonHTML 1)"
proof -
  have items: "dataListItems demoWorld = Some \<lparr>children = [createElement ''p'']\<rparr>"
    by (simp add: demoWorld_def)
  have "map_option (length \<circ> children) (dataListItems (snd (updateBookList [0, 1, 2] demoWorld)))
          = map_option length (map_option children
              (dataListItems (snd (updateBookList [0, 1, 2] demoWorld))))"
    by (simp add: option.map_comp)
  also have "\<dots> = Some 3"
    by (simp add: updateBookList_children [OF items])
  finally have shown: "map_option (length \<circ> children)
      (dataListItems (snd (updateBookList [0, 1, 2] demoWorld))) = Some 3" .
  have label: "map_option innerHTML (dataListButton (snd (updateBookList [0, 1, 2] demoWorld)))
       = Some (buttonHTML 1)"
    by (simp add: updateBookList_button_early demoWorld_def remaining_def remainingBooks_def
        hasRemaining_def)
  have "length (pageSlice (page demoWorld) (BOOKS_PER_PAGE demoWorld) [0, 1, 2 :: ref]) = 2"
    by (simp add: pageSlice_def demoWorld_def)
  with shown label show ?thesis by simp
qed

section \<open>Trimming of the title query\<close>

text \<open>
  C5, at the failing input. The query " war" (a leading space) and its trimmed form "war"
  differ only by surrounding white space; on the catalog of "Moby Dick" and "War and
  Peace" the first finds nothing and the second finds "War and Peace": the substring test
  is made with the query as submitted.
\<close>

theorem untrimmed_query_differs:
  "trim '' war'' = ''war''
   \<and> searchLoop (fromEntries (formOf \<lparr>titleQuery = '' war'', authorId = ''any'', genreId = ''any''\<rparr>))
       demoHeap [0, 1] [] = Inr []
   \<and> searchLoop (fromEntries (formOf \<lparr>titleQuery = ''war'', authorId = ''any'', genreId = ''any''\<rparr>))
       demoHeap [0, 1] [] = Inr [1]"
  by (simp only: searchLoop_formOf) (simp add: run_simps)

section \<open>Absent and malformed criteria fields\<close>

text \<open>
  C6, as stated, at concrete inputs. A form without a title field makes the handler throw a
  TypeError on the demo catalog; a form without an author field does not throw, but no
  book passes, where "any" would let every book pass.
\<close>

theorem absent_field_counterexample:
  "fst (handleSearchFormSubmit \<lparr>target = [(''author'', Str ''any''), (''genre'', Str ''any'')]\<rparr>
          demoWorld) = Throw TypeError
   \<and> searchLoop (fromEntries [(''title'', Str []), (''genre'', Str ''any'')]) demoHeap [0, 1] []
       = Inr []
   \<and> searchLoop (fromEntries [(''title'', Str []), (''author'', Str ''any''), (''genre'', Str ''any'')])
       demoHeap [0, 1] [] = Inr [0, 1]"
proof -
  let ?f = "fromEntries [(''author'', Str ''any''), (''genre'', Str ''any'')]"
  have "?f ''title'' = Undefined \<or> ?f ''title'' = FileObj"
    by (simp add: fromEntries_def)
  then have "searchLoop ?f demoHeap [0, 1, 2] [] = Inl TypeError"
    by (rule searchLoop_no_text_title) simp
  then have thrown: "fst (handleSearchFormSubmit
      \<lparr>target = [(''author'', Str ''any''), (''genre'', Str ''any'')]\<rparr> demoWorld) = Throw TypeError"
    by (simp add: handler_completion demoWorld_def)
  let ?g = "fromEntries [(''title'', Str []), (''genre'', Str ''any'')]"
  have none: "searchLoop ?g demoHeap [0, 1] [] = Inr []"
    using searchLoop_text_title [where filters = ?g and q = "[]" and h = demoHeap
        and bs = "[0, 1]" and acc = "[]"]
    by (simp add: fromEntries_def authorMatch_def)
  let ?a = "fromEntries [(''title'', Str []), (''author'', Str ''any''), (''genre'', Str ''any'')]"
  have all: "searchLoop ?a demoHeap [0, 1] [] = Inr [0, 1]"
    using searchLoop_text_title [where filters = ?a and q = "[]" and h = demoHeap
        and bs = "[0, 1]" and acc = "[]"]
    by (simp add: fromEntries_def authorMatch_def genreMatch_def trim_def)
  from thrown none all show ?thesis by simp
qed

text \<open>
  C6, amended. For every criteria object whose title field is a text, the filter succeeds
  and never throws, whatever the author and genre fields are. An absent or malformed field
  is not read as "any": when the title field is absent or not a text, the filter throws a
  TypeError as soon as the catalog has a book; when the author or the genre field is
  absent or not a text, no book matches.
\<close>

theorem filter_on_any_criteria:
  "(filters ''title'' = Str q \<longrightarrow> (\<exists>rs. searchLoop filters h catalog [] = Inr rs))
   \<and> ((filters ''title'' = Undefined \<or> filters ''title'' = FileObj) \<and> catalog \<noteq> []
        \<longrightarrow> searchLoop filters h catalog [] = Inl TypeError)
   \<and> (filters ''title'' = Str q
        \<and> (filters ''author'' = Undefined \<or> filters ''author'' = FileObj
           \<or> filters ''genre'' = Undefined \<or> filters ''genre'' = FileObj)
        \<longrightarrow> searchLoop filters h catalog [] = Inr [])"
proof (intro conjI impI)
  assume "filters ''title'' = Str q"
  then show "\<exists>rs. searchLoop filters h catalog [] = Inr rs"
    by (simp add: searchLoop_text_title)
next
  assume "(filters ''title'' = Undefined \<or> filters ''title'' = FileObj) \<and> catalog \<noteq> []"
  then show "searchLoop filters h catalog [] = Inl TypeError"
    by (simp add: searchLoop_no_text_title)
next
  assume a: "filters ''title'' = Str q
        \<and> (filters ''author'' = Undefined \<or> filters ''author'' = FileObj
           \<or> filters ''genre'' = Undefined \<or> filters ''genre'' = FileObj)"
  then have "\<And>b. \<not> (authorMatch filters b \<and> genreMatch filters b)"
    using no_author_no_match no_genre_no_match by blast
  then have "\<And>r. \<not> (authorMatch filters (h r) \<and> genreMatch filters (h r))" by blast
  with a show "searchLoop filters h catalog [] = Inr []"
    by (simp add: searchLoop_text_title)
qed

text \<open>The amended C6 at three forms on the demo catalog: all fields there, no title field,
  no author field.\<close>

theorem filter_on_any_criteria_witness:
  "(\<exists>rs. searchLoop (fromEntries (formOf \<lparr>titleQuery = ''war'', authorId = ''a2'', genreId = ''g2''\<rparr>))
            demoHeap [0, 1] [] = Inr rs)
   \<and> searchLoop (fromEntries [(''author'', Str ''any''), (''genre'', Str ''any'')])
            demoHeap [0, 1] [] = Inl TypeError
   \<and> searchLoop (fromEntries [(''title'', Str ''war''), (''genre'', FileObj)])
            demoHeap [0, 1] [] = Inr []"
proof -
  let ?f = "fromEntries (formOf \<lparr>titleQuery = ''war'', authorId = ''a2'', genreId = ''g2''\<rparr>)"
  let ?g = "fromEntries [(''author'', Str ''any''), (''genre'', Str ''any'')]"
  let ?k = "fromEntries [(''title'', Str ''war''), (''genre'', FileObj)]"
  have f: "?f ''title'' = Str ''war''" by (simp add: fromEntries_formOf)
  have g: "(?g ''title'' = Undefined \<or> ?g ''title'' = FileObj) \<and> [0, 1 :: ref] \<noteq> []"
    by (simp add: fromEntries_def)
  have k: "?k ''title'' = Str ''war''
        \<and> (?k ''author'' = Undefined \<or> ?k ''author'' = FileObj
           \<or> ?k ''genre'' = Undefined \<or> ?k ''genre'' = FileObj)"
    by (simp add: fromEntries_def)
  from filter_on_any_criteria [of ?f "''war''" demoHeap "[0, 1]"] f
  have 1: "\<exists>rs. searchLoop ?f demoHeap [0, 1] [] = Inr rs" by blast
  from filter_on_any_criteria [of ?g "''war''" demoHeap "[0, 1]"] g
  have 2: "searchLoop ?g demoHeap [0, 1] [] = Inl TypeError" by blast
  from filter_on_any_criteria [of ?k "''war''" demoHeap "[0, 1]"] k
  have 3: "searchLoop ?k demoHeap [0, 1] [] = Inr []" by blast
  from 1 2 3 show ?thesis by blast
qed

section \<open>Missing mounting points\<close>

text \<open>
  C7, at the failing input. On a page without the list container \<^verbatim>\<open>[data-list-items]\<close>,
  \<^verbatim>\<open>updateBookList\<close> throws a TypeError, and so does the search handler that calls it. The
  three other elements are guarded: without the button, the overlay and the message
  element the same call returns normally.
\<close>

theorem missing_list_container_throws:
  "fst (updateBookList [0, 1] (demoWorld\<lparr>dataListItems := None\<rparr>)) = Throw TypeError
   \<and> fst (handleSearchFormSubmit
            \<lparr>target = formOf \<lparr>titleQuery = ''war'', authorId = ''any'', genreId = ''any''\<rparr>\<rparr>
            (demoWorld\<lparr>dataListItems := None\<rparr>)) = Throw TypeError
   \<and> fst (updateBookList [0, 1]
            (demoWorld\<lparr>dataListButton := None, dataSearchOverlay := None,
                        dataListMessage := None\<rparr>)) = Normal"
  by (simp add: updateBookList_completion handler_completion searchLoop_formOf demoWorld_def
      del: searchLoop.simps)

section \<open>The load-more button\<close>



section \<open>An author id missing from the author table\<close>

text \<open>
  C9, as stated, at a concrete input. The record "Walden" has the author id "a9999", which
  the author table does not have. Rendering it completes normally and writes nothing to
  the console: the missing id is not reported.
\<close>

theorem missing_author_not_reported_counterexample:
  "authors demoWorld (author (heap demoWorld 2)) = None
   \<and> fst (updateBookList [2] demoWorld) = Normal
   \<and> console (snd (updateBookList [2] demoWorld)) = []"
  by (simp add: updateBookList_completion updateBookList_frame demoWorld_def demoHeap_def
      walden_def demoAuthors_def)

text \<open>
  C9, amended. For every rendered book preview whose record references an author id
  absent from the author table, nothing is reported or logged. The author field of the
  preview carries the text "undefined", unless the id is the name of a property that the
  table inherits from \<^verbatim>\<open>Object.prototype\<close> (such as "constructor"): then it carries the
  text of the inherited value. The render completes: on a page that has the list
  container, the call returns normally and every entry of the result array, before and
  after that record, gets its preview.
\<close>

theorem missing_author_renders_undefined:
  assumes "dataListItems w = Some items"
  shows "fst (updateBookList rs w) = Normal
       \<and> console (snd (updateBookList rs w)) = console w
       \<and> map_option children (dataListItems (snd (updateBookList rs w)))
           = Some (map (\<lambda>r. createPreview (authors w) (inheritedText w) (heap w r)) rs)
       \<and> (\<forall>bk. authors w (author bk) = None \<longrightarrow>
             innerHTML (createPreview (authors w) (inheritedText w) bk)
               = previewHTML (image bk) (title bk)
                   (if List.member objectPrototypeNames (author bk)
                    then inheritedText w (author bk) else ''undefined''))"
  using assms
  by (simp add: updateBookList_completion updateBookList_frame updateBookList_children
      createPreview_def authorText_def Let_def)

text \<open>The amended C9 on the demo page, rendering "Walden" (author id "a9999"), "Beowulf"
  (author id "constructor") and then "Moby Dick": the three previews are in the list, the
  first with "undefined" as author, the second with the text of the inherited
  constructor.\<close>

theorem missing_author_renders_undefined_witness:
  "dataListItems demoWorld = Some \<lparr>children = [createElement ''p'']\<rparr>
   \<and> authors demoWorld (author walden) = None
   \<and> authors demoWorld (author anonymous) = None
   \<and> fst (updateBookList [2, 3, 0] demoWorld) = Normal
   \<and> console (snd (updateBookList [2, 3, 0] demoWorld)) = []
   \<and> map_option children (dataListItems (snd (updateBookList [2, 3, 0] demoWorld)))
       = Some [createPreview demoAuthors demoInherited walden,
               createPreview demoAuthors demoInherited anonymous,
               createPreview demoAuthors demoInherited mobyDick]
   \<and> innerHTML (createPreview demoAuthors demoInherited walden)
       = previewHTML ''b3.jpg'' ''Walden'' ''undefined''
   \<and> innerHTML (createPreview demoAuthors demoInherited anonymous)
       = previewHTML ''b4.jpg'' ''Beowulf'' ''function Object() { [native code] }''"
proof -
  have items: "dataListItems demoWorld = Some \<lparr>children = [createElement ''p'']\<rparr>"
    by (simp add: demoWorld_def)
  have missing: "authors demoWorld (author walden) = None"
    "authors demoWorld (author anonymous) = None"
    by (simp_all add: demoWorld_def demoAuthors_def walden_def anonymous_def)
  have facts: "authors demoWorld = demoAuthors" "inheritedText demoWorld = demoInherited"
    "heap demoWorld = demoHeap" "console demoWorld = []"
    "demoHeap 2 = walden" "demoHeap 3 = anonymous" "demoHeap 0 = mobyDick"
    by (simp_all add: demoWorld_def demoHeap_def)
  have texts: "image walden = ''b3.jpg''" "title walden = ''Walden''"
    "author walden \<notin> set objectPrototypeNames"
    "image anonymous = ''b4.jpg''" "title anonymous = ''Beowulf''"
    "author anonymous \<in> set objectPrototypeNames"
    "demoInherited (author anonymous) = ''function Object() { [native code] }''"
    by (simp_all add: walden_def anonymous_def objectPrototypeNames_def demoInherited_def)
  note all = missing_author_renders_undefined [OF items, of "[2, 3, 0]"]
  from all have each: "\<And>bk. authors demoWorld (author bk) = None \<Longrightarrow>
      innerHTML (createPreview (authors demoWorld) (inheritedText demoWorld) bk)
        = previewHTML (image bk) (title bk)
            (if List.member objectPrototypeNames (author bk)
             then inheritedText demoWorld (author bk) else ''undefined'')"
    by blast
  from all items missing each [OF missing(1)] each [OF missing(2)]
  show ?thesis by (simp add: facts texts)
qed

section \<open>The catalog is only read\<close>

lemma subseq_elements:
  assumes "subseq xs ys"
  shows "set xs \<subseteq> set ys"
  using assms by (induction rule: list_emb.induct) auto

text \<open>
  C10. For every search submission, the handler leaves the books list, every book record
  and the author table as they were, and the results array it builds is a subsequence
  of the books list: each of its elements is one of the catalog's references, so no
  record is copied or made up.
\<close>

theorem search_leaves_catalog_unchanged:
  "books (snd (handleSearchFormSubmit ev w)) = books w
   \<and> heap (snd (handleSearchFormSubmit ev w)) = heap w
   \<and> authors (snd (handleSearchFormSubmit ev w)) = authors w
   \<and> (\<forall>results. searchLoop (fromEntries (target ev)) (heap w) (books w) [] = Inr results
         \<longrightarrow> subseq results (books w) \<and> set results \<subseteq> set (books w))"
proof -
  have "subseq results (books w) \<and> set results \<subseteq> set (books w)"
    if "searchLoop (fromEntries (target ev)) (heap w) (books w) [] = Inr results" for results
  proof -
    from searchLoop_subseq [OF that] have "subseq results (books w)" by simp
    then show ?thesis by (simp add: subseq_elements)
  qed
  then show ?thesis by (simp add: handler_frame)
qed

text \<open>C10 on the demo page, for the query "war": the catalog is as before and the results
  array holds the reference of "War and Peace".\<close>

theorem search_leaves_catalog_unchanged_witness:
  "books (snd (handleSearchFormSubmit
       \<lparr>target = formOf \<lparr>titleQuery = ''war'', authorId = ''any'', genreId = ''any''\<rparr>\<rparr>
       demoWorld)) = [0, 1, 2]
   \<and> heap (snd (handleSearchFormSubmit
       \<lparr>target = formOf \<lparr>titleQuery = ''war'', authorId = ''any'', genreId = ''any''\<rparr>\<rparr>
       demoWorld)) = demoHeap
   \<and> authors (snd (handleSearchFormSubmit
       \<lparr>target = formOf \<lparr>titleQuery = ''war'', authorId = ''any'', genreId = ''any''\<rparr>\<rparr>
       demoWorld)) = demoAuthors
   \<and> searchLoop (fromEntries (formOf \<lparr>titleQuery = ''war'', authorId = ''any'', genreId = ''any''\<rparr>))
       demoHeap [0, 1, 2] [] = Inr [1]
   \<and> subseq [1] [0, 1, 2 :: ref]
   \<and> set [1] \<subseteq> set [0, 1, 2 :: ref]"
proof -
  let ?ev = "\<lparr>target = formOf \<lparr>titleQuery = ''war'', authorId = ''any'', genreId = ''any''\<rparr>\<rparr>"
  have run: "searchLoop (fromEntries (target ?ev)) (heap demoWorld) (books demoWorld) [] = Inr [1]"
    by (simp add: demoWorld_def searchLoop_formOf run_simps del: searchLoop.simps)
  have facts: "books demoWorld = [0, 1, 2]" "heap demoWorld = demoHeap"
    "authors demoWorld = demoAuthors"
    by (simp_all add: demoWorld_def)
  from search_leaves_catalog_unchanged [of ?ev demoWorld] run
  have "books (snd (handleSearchFormSubmit ?ev demoWorld)) = books demoWorld
      \<and> heap (snd (handleSearchFormSubmit ?ev demoWorld)) = heap demoWorld
      \<and> authors (snd (handleSearchFormSubmit ?ev demoWorld)) = authors demoWorld
      \<and> subseq [1] (books demoWorld) \<and> set [1] \<subseteq> set (books demoWorld)"
    by blast
  with run show ?thesis by (simp add: facts)
qed

end
